theory Spec2Isabelle
  imports Main
begin

section \<open>Python values and exceptions\<close>

text \<open>
  The module \<open>bow.py\<close> is a Flask application: a JSON encoder class, a header
  decorator, three static views, a 404 handler and four POST views that unpack a request,
  call an external backend and wrap the outcome in a dictionary \<open>metadata\<close>.

  Python objects that can travel through \<open>metadata\<close> are the values of \<open>pyval\<close>.
  A dictionary is an association list in insertion order with string keys (the keys of a
  JSON object and of \<open>**metadata\<close>). The numpy scalar classes are the ones the encoder
  names: \<open>np.int_\<close> and \<open>np.intp\<close> are \<open>np.int64\<close>, \<open>np.intc\<close> is \<open>np.int32\<close> and
  \<open>np.float_\<close> is \<open>np.float64\<close>. Any object of another class is \<open>PObject\<close> with the
  name of its class.
\<close>

datatype pyfloat = Finite int int | PosInf | NegInf | NaN

datatype np_int = int8 | int16 | int32 | int64 | uint8 | uint16 | uint32 | uint64

datatype np_float = float16 | float32 | float64

datatype date = Date (year: nat) (month: nat) (day: nat)

datatype time = Time (hour: nat) (minute: nat) (second: nat) (microsecond: nat)

text \<open>
  A \<open>datetime\<close> is a date, a time of day and, when it is aware, the offset of its zone
  from UTC in minutes. A \<open>timedelta\<close> is normalised as Python keeps it: any number of
  days, seconds below 86400 and microseconds below 1000000.
\<close>

datatype datetime = Datetime (date_part: date) (time_part: time) (utcoffset: "int option")

datatype timedelta = Timedelta (days: int) (seconds: nat) (microseconds: nat)

datatype pyval =
    PNone
  | PBool bool
  | PInt int
  | PFloat pyfloat
  | PStr string
  | PList "pyval list"
  | PDict "(string \<times> pyval) list"
  | NpInt np_int int
  | NpFloat np_float pyfloat
  | PDatetime datetime
  | PDate date
  | PTimedelta timedelta
  | PObject string

type_synonym dict = "(string \<times> pyval) list"

text \<open>
  An exception carries the name of its class and \<open>str(e)\<close>. \<open>Exception\<close> stands for
  every class derived from Python's \<open>Exception\<close>, the ones \<open>except Exception\<close> catches;
  \<open>BaseException\<close> for the classes outside it (\<open>SystemExit\<close>, \<open>KeyboardInterrupt\<close>,
  \<open>GeneratorExit\<close>).
\<close>

datatype exn = Exception string string | BaseException string string

fun str_e :: "exn \<Rightarrow> string" where
  "str_e (Exception c m) = m"
| "str_e (BaseException c m) = m"

fun np_int_name :: "np_int \<Rightarrow> string" where
  "np_int_name int8 = ''int8''"
| "np_int_name int16 = ''int16''"
| "np_int_name int32 = ''int32''"
| "np_int_name int64 = ''int64''"
| "np_int_name uint8 = ''uint8''"
| "np_int_name uint16 = ''uint16''"
| "np_int_name uint32 = ''uint32''"
| "np_int_name uint64 = ''uint64''"

fun np_float_name :: "np_float \<Rightarrow> string" where
  "np_float_name float16 = ''float16''"
| "np_float_name float32 = ''float32''"
| "np_float_name float64 = ''float64''"

text \<open>\<open>type(obj).__name__\<close>, as the messages of the interpreter print it.\<close>

fun type_name :: "pyval \<Rightarrow> string" where
  "type_name PNone = ''NoneType''"
| "type_name (PBool b) = ''bool''"
| "type_name (PInt i) = ''int''"
| "type_name (PFloat f) = ''float''"
| "type_name (PStr s) = ''str''"
| "type_name (PList xs) = ''list''"
| "type_name (PDict kvs) = ''dict''"
| "type_name (NpInt k i) = np_int_name k"
| "type_name (NpFloat k f) = np_float_name k"
| "type_name (PDatetime dt) = ''datetime''"
| "type_name (PDate d) = ''date''"
| "type_name (PTimedelta td) = ''timedelta''"
| "type_name (PObject c) = c"

subsection \<open>Dictionaries\<close>

text \<open>
  \<open>d[k] = v\<close> replaces the value of a key that is present, in place, and appends a new
  key at the end; \<open>d.get(k, None)\<close> reads a key.
\<close>

fun setitem :: "string \<Rightarrow> 'v \<Rightarrow> (string \<times> 'v) list \<Rightarrow> (string \<times> 'v) list" where
  "setitem k v [] = [(k, v)]"
| "setitem k v (p # ps) = (if fst p = k then (k, v) # ps else p # setitem k v ps)"


text \<open>
  \<open>request_json.get(key, None)\<close>: only a dictionary has the method among the values
  that \<open>request.get_json()\<close> returns.
\<close>

definition py_get :: "pyval \<Rightarrow> string \<Rightarrow> exn + pyval" where
  "py_get obj k =
     (case obj of
        PDict kvs \<Rightarrow> (case map_of kvs k of None \<Rightarrow> Inr PNone | Some v \<Rightarrow> Inr v)
      | _ \<Rightarrow> Inl (Exception ''AttributeError''
                 ([CHR 0x27] @ type_name obj @ [CHR 0x27] @ '' object has no attribute ''
                  @ [CHR 0x27] @ ''get'' @ [CHR 0x27])))"

section \<open>Dates and times: \<open>isoformat\<close>\<close>








text \<open>
  \<open>'%0wd' % n\<close> for a natural number: the decimal digits of \<open>n\<close>, padded with zeros on
  the left to at least \<open>w\<close> characters.
\<close>

definition digit_chr :: "nat \<Rightarrow> char" where
  "digit_chr d = char_of (48 + d)"

function fmt_d :: "nat \<Rightarrow> nat \<Rightarrow> string" where
  "fmt_d w n =
     (if n < 10 then replicate (w - 1) CHR ''0'' @ [digit_chr n]
      else fmt_d (w - 1) (n div 10) @ [digit_chr (n mod 10)])"
  by pat_completeness auto
termination
  by (relation "measure snd") auto

declare fmt_d.simps [simp del]

text \<open>\<open>date.isoformat()\<close>: \<open>YYYY-MM-DD\<close>.\<close>

definition date_isoformat :: "date \<Rightarrow> string" where
  "date_isoformat d = fmt_d 4 (year d) @ ''-'' @ fmt_d 2 (month d) @ ''-'' @ fmt_d 2 (day d)"

text \<open>
  \<open>time.isoformat()\<close>: \<open>HH:MM:SS\<close>, followed by \<open>.ffffff\<close> when the microsecond is not
  zero.
\<close>

definition time_isoformat :: "time \<Rightarrow> string" where
  "time_isoformat t =
     fmt_d 2 (hour t) @ '':'' @ fmt_d 2 (minute t) @ '':'' @ fmt_d 2 (second t)
     @ (if microsecond t \<noteq> 0 then ''.'' @ fmt_d 6 (microsecond t) else [])"

text \<open>The offset of an aware value: a sign and \<open>HH:MM\<close>.\<close>

definition offset_isoformat :: "int \<Rightarrow> string" where
  "offset_isoformat off =
     (if off < 0 then ''-'' else ''+'')
     @ fmt_d 2 (nat \<bar>off\<bar> div 60) @ '':'' @ fmt_d 2 (nat \<bar>off\<bar> mod 60)"

text \<open>\<open>datetime.isoformat()\<close>: the date, \<open>T\<close>, the time and the offset if there is one.\<close>

definition datetime_isoformat :: "datetime \<Rightarrow> string" where
  "datetime_isoformat dt =
     date_isoformat (date_part dt) @ ''T'' @ time_isoformat (time_part dt)
     @ (case utcoffset dt of None \<Rightarrow> [] | Some off \<Rightarrow> offset_isoformat off)"

text \<open>
  \<open>(datetime.datetime.min + obj).time()\<close>. \<open>datetime.min\<close> is midnight of day 1 of the
  proleptic calendar. The sum has the ordinal \<open>1 + obj.days\<close> and the time of day that
  \<open>obj.seconds\<close> and \<open>obj.microseconds\<close> give; Python raises \<open>OverflowError\<close> unless
  the ordinal is between 1 and 3652059 (day 9999-12-31). \<open>.time()\<close> keeps the time of
  day of the sum, so the sum is kept as its ordinal and its time.
\<close>

definition MAXORDINAL :: int where
  "MAXORDINAL = 3652059"

definition datetime_min_add :: "timedelta \<Rightarrow> exn + (int \<times> time)" where
  "datetime_min_add td =
     (let ordinal = 1 + days td in
      if 0 < ordinal \<and> ordinal \<le> MAXORDINAL
      then Inr (ordinal,
                Time (seconds td div 3600) (seconds td mod 3600 div 60) (seconds td mod 60)
                     (microseconds td))
      else Inl (Exception ''OverflowError'' ''date value out of range''))"

definition time_of :: "int \<times> time \<Rightarrow> time" where
  "time_of dt = snd dt"

section \<open>The JSON encoders\<close>

datatype json =
    JNull
  | JBool bool
  | JInt int
  | JFloat pyfloat
  | JStr string
  | JArr "json list"
  | JObj "(string \<times> json) list"

text \<open>
  The text that \<open>json.dumps\<close> writes is kept as the JSON value it denotes. Two encoder
  classes occur: \<open>json.JSONEncoder\<close>, which \<open>json.dumps(metadata)\<close> uses, and its
  subclass \<open>CustomizedEncoder\<close>, installed as \<open>app.json_encoder\<close> and so used by
  \<open>jsonify\<close>.
\<close>

datatype encoder = JSONEncoder | CustomizedEncoder

text \<open>\<open>JSONEncoder.default(self, o)\<close> raises \<open>TypeError\<close> for every object.\<close>

definition JSONEncoder_default :: "pyval \<Rightarrow> exn + pyval" where
  "JSONEncoder_default obj =
     Inl (Exception ''TypeError''
            (''Object of type '' @ type_name obj @ '' is not JSON serializable''))"

text \<open>
  \<open>obj.asscalar()\<close>: numpy's scalar classes have \<open>item\<close> but no method \<open>asscalar\<close>
  (\<open>numpy.asscalar\<close> is a function of the module), so the attribute lookup raises.
\<close>

definition np_item :: "pyval \<Rightarrow> exn + pyval" where
  "np_item obj =
     (case obj of
        NpInt k i \<Rightarrow> Inr (PInt i)
      | NpFloat k f \<Rightarrow> Inr (PFloat f)
      | _ \<Rightarrow> Inl (Exception ''AttributeError''
                 ([CHR 0x27] @ type_name obj @ [CHR 0x27] @ '' object has no attribute ''
                  @ [CHR 0x27] @ ''item'' @ [CHR 0x27])))"

definition np_asscalar :: "pyval \<Rightarrow> exn + pyval" where
  "np_asscalar obj =
     Inl (Exception ''AttributeError''
            ([CHR 0x27] @ ''numpy.'' @ type_name obj @ [CHR 0x27]
             @ '' object has no attribute '' @ [CHR 0x27] @ ''asscalar'' @ [CHR 0x27]))"

text \<open>
  \<open>CustomizedEncoder.default\<close>, one equation for each \<open>isinstance\<close> test in the order
  of the source. The last line of the method,
  \<open>super(self.__class__, self).default(self, obj)\<close>, calls the bound method of the
  parent with \<open>self\<close> once more, which is a \<open>TypeError\<close> for the number of arguments.
\<close>

fun CustomizedEncoder_default :: "pyval \<Rightarrow> exn + pyval" where
  "CustomizedEncoder_default (NpInt k i) = np_item (NpInt k i)"
| "CustomizedEncoder_default (NpFloat k f) = np_asscalar (NpFloat k f)"
| "CustomizedEncoder_default (PDatetime dt) = Inr (PStr (datetime_isoformat dt))"
| "CustomizedEncoder_default (PDate d) = Inr (PStr (date_isoformat d))"
| "CustomizedEncoder_default (PTimedelta td) =
     (case datetime_min_add td of
        Inl e \<Rightarrow> Inl e
      | Inr dt \<Rightarrow> Inr (PStr (time_isoformat (time_of dt))))"
| "CustomizedEncoder_default obj =
     Inl (Exception ''TypeError''
            ''default() takes 2 positional arguments but 3 were given'')"

fun default_of :: "encoder \<Rightarrow> pyval \<Rightarrow> exn + pyval" where
  "default_of JSONEncoder obj = JSONEncoder_default obj"
| "default_of CustomizedEncoder obj = CustomizedEncoder_default obj"

text \<open>The elements of a list or dictionary are encoded from left to right; the first
  exception ends the encoding.\<close>

fun sequence :: "('e + 'a) list \<Rightarrow> 'e + 'a list" where
  "sequence [] = Inr []"
| "sequence (x # xs) =
     (case x of
        Inl e \<Rightarrow> Inl e
      | Inr y \<Rightarrow> (case sequence xs of Inl e \<Rightarrow> Inl e | Inr ys \<Rightarrow> Inr (y # ys)))"

text \<open>
  \<open>JSONEncoder.iterencode\<close>: \<open>None\<close>, booleans, \<open>int\<close>, \<open>float\<close> and its subclass
  \<open>np.float64\<close>, \<open>str\<close>, lists and dictionaries are encoded by the encoder itself; for
  any other object it calls \<open>default\<close> and encodes what that returns.
\<close>

fun needs_default :: "pyval \<Rightarrow> bool" where
  "needs_default (NpInt k i) = True"
| "needs_default (NpFloat k f) = (k \<noteq> float64)"
| "needs_default (PDatetime dt) = True"
| "needs_default (PDate d) = True"
| "needs_default (PTimedelta td) = True"
| "needs_default (PObject c) = True"
| "needs_default v = False"

function iterencode :: "encoder \<Rightarrow> pyval \<Rightarrow> exn + json" where
  "iterencode c PNone = Inr JNull"
| "iterencode c (PBool b) = Inr (JBool b)"
| "iterencode c (PInt i) = Inr (JInt i)"
| "iterencode c (PFloat f) = Inr (JFloat f)"
| "iterencode c (PStr s) = Inr (JStr s)"
| "iterencode c (PList xs) =
     (case sequence (map (iterencode c) xs) of Inl e \<Rightarrow> Inl e | Inr js \<Rightarrow> Inr (JArr js))"
| "iterencode c (PDict kvs) =
     (case sequence (map (\<lambda>(k, v). case iterencode c v of
                                     Inl e \<Rightarrow> Inl e
                                   | Inr j \<Rightarrow> Inr (k, j)) kvs) of
        Inl e \<Rightarrow> Inl e
      | Inr fields \<Rightarrow> Inr (JObj fields))"
| "iterencode c (NpFloat k f) =
     (if k = float64 then Inr (JFloat f)
      else case default_of c (NpFloat k f) of Inl e \<Rightarrow> Inl e | Inr v \<Rightarrow> iterencode c v)"
| "iterencode c (NpInt k i) =
     (case default_of c (NpInt k i) of Inl e \<Rightarrow> Inl e | Inr v \<Rightarrow> iterencode c v)"
| "iterencode c (PDatetime dt) =
     (case default_of c (PDatetime dt) of Inl e \<Rightarrow> Inl e | Inr v \<Rightarrow> iterencode c v)"
| "iterencode c (PDate d) =
     (case default_of c (PDate d) of Inl e \<Rightarrow> Inl e | Inr v \<Rightarrow> iterencode c v)"
| "iterencode c (PTimedelta td) =
     (case default_of c (PTimedelta td) of Inl e \<Rightarrow> Inl e | Inr v \<Rightarrow> iterencode c v)"
| "iterencode c (PObject n) =
     (case default_of c (PObject n) of Inl e \<Rightarrow> Inl e | Inr v \<Rightarrow> iterencode c v)"
  by pat_completeness auto
termination
proof (relation "measure (\<lambda>(c, v). 2 * size v + (if needs_default v then 1 else 0))",
    goal_cases)
  case 1
  show ?case by simp
next
  case (2 c xs x)
  then have "size x \<le> size_list size xs"
    by (simp add: size_list_estimation')
  then show ?case by simp
next
  case (3 c kvs p k v)
  then have "size_prod (\<lambda>x. 0) size p \<le> size_list (size_prod (\<lambda>x. 0) size) kvs"
    by (simp add: size_list_estimation')
  with 3 show ?case by auto
next
  case (4 c k f v)
  then show ?case
    by (cases c) (auto simp: JSONEncoder_default_def np_asscalar_def)
next
  case (5 c k i v)
  then show ?case
    by (cases c) (auto simp: JSONEncoder_default_def np_item_def)
next
  case (6 c dt v)
  then show ?case
    by (cases c) (auto simp: JSONEncoder_default_def)
next
  case (7 c d v)
  then show ?case
    by (cases c) (auto simp: JSONEncoder_default_def)
next
  case (8 c td v)
  then show ?case
    by (cases c) (auto simp: JSONEncoder_default_def split: sum.splits)
next
  case (9 c n v)
  then show ?case
    by (cases c) (auto simp: JSONEncoder_default_def)
qed

text \<open>\<open>json.dumps(obj, cls=c)\<close>; without \<open>cls\<close> the class is \<open>JSONEncoder\<close>.\<close>

definition dumps :: "encoder \<Rightarrow> pyval \<Rightarrow> exn + json" where
  "dumps c obj = iterencode c obj"

definition json_dumps :: "pyval \<Rightarrow> exn + json" where
  "json_dumps obj = dumps JSONEncoder obj"

section \<open>Requests and responses\<close>

text \<open>
  A request is its method, its path and what \<open>request.get_json()\<close> gives for its
  body: the parsed value, \<open>None\<close> when the body is not declared as JSON, or the
  \<open>BadRequest\<close> that a malformed body raises. A response is its status, its mimetype,
  its headers and its body; the headers that the CORS extension adds are left out.
\<close>

record request =
  request_method :: string
  path :: string
  get_json :: "exn + pyval"

datatype body = Json json | RedirectPage string | ErrorPage int | Empty

record response =
  status_code :: int
  mimetype :: string
  headers :: "(string \<times> string) list"
  body :: body

definition VERSION :: pyfloat where
  "VERSION = Finite 1 0"

definition OK_STATUS :: int where
  "OK_STATUS = 200"

definition OK_CREATE_STATUS :: int where
  "OK_CREATE_STATUS = 201"

definition DEF_ERROR_CODE :: int where
  "DEF_ERROR_CODE = 500"

text \<open>\<open>app.json_encoder = CustomizedEncoder\<close>\<close>

definition app_json_encoder :: encoder where
  "app_json_encoder = CustomizedEncoder"

text \<open>
  \<open>jsonify(obj)\<close> serialises with the encoder of the application and answers with
  status 200.
\<close>

definition jsonify :: "pyval \<Rightarrow> exn + response" where
  "jsonify obj =
     (case dumps app_json_encoder obj of
        Inl e \<Rightarrow> Inl e
      | Inr text \<Rightarrow>
          Inr \<lparr>status_code = 200, mimetype = ''application/json'', headers = [],
               body = Json text\<rparr>)"

text \<open>\<open>metadata[key]\<close>\<close>

definition getitem :: "dict \<Rightarrow> string \<Rightarrow> exn + pyval" where
  "getitem d k =
     (case map_of d k of
        None \<Rightarrow> Inl (Exception ''KeyError'' ([CHR 0x27] @ k @ [CHR 0x27]))
      | Some v \<Rightarrow> Inr v)"

text \<open>\<open>Response(text, status=status, mimetype=mimetype)\<close>\<close>

definition Response :: "json \<Rightarrow> pyval \<Rightarrow> string \<Rightarrow> exn + response" where
  "Response text status mt =
     (case status of
        PInt n \<Rightarrow> Inr \<lparr>status_code = n, mimetype = mt, headers = [], body = Json text\<rparr>
      | _ \<Rightarrow> Inl (Exception ''TypeError'' ''Invalid status argument''))"

text \<open>\<open>redirect(location)\<close>: status 302, the target in \<open>Location\<close>, a page that links to
  it.\<close>

definition redirect :: "string \<Rightarrow> response" where
  "redirect location =
     \<lparr>status_code = 302, mimetype = ''text/html'', headers = [(''Location'', location)],
      body = RedirectPage location\<rparr>"

text \<open>
  \<open>make_response(rv)\<close> keeps a response object as it is and rejects \<open>None\<close>, the value
  of a view that ends without \<open>return\<close>.
\<close>

definition make_response :: "response option \<Rightarrow> exn + response" where
  "make_response rv =
     (case rv of
        None \<Rightarrow> Inl (Exception ''TypeError'' ''The view function did not return a valid response.'')
      | Some resp \<Rightarrow> Inr resp)"

text \<open>
  The decorator \<open>add_response_headers(headers)\<close>: the view runs, its value becomes a
  response, and every header of \<open>headers\<close> is stored in it.
\<close>

definition add_response_headers ::
  "(string \<times> string) list \<Rightarrow> (request \<Rightarrow> exn + response option) \<Rightarrow> request
     \<Rightarrow> exn + response" where
  "add_response_headers hs f request =
     (case f request of
        Inl e \<Rightarrow> Inl e
      | Inr rv \<Rightarrow>
          (case make_response rv of
             Inl e \<Rightarrow> Inl e
           | Inr resp \<Rightarrow>
               Inr (resp\<lparr>headers :=
                      fold (\<lambda>(header, value) h. setitem header value h) hs (headers resp)\<rparr>)))"

section \<open>The static views\<close>

text \<open>The rules that the module registers: path, methods and endpoint.\<close>

definition url_map :: "(string \<times> string list \<times> string) list" where
  "url_map =
     [(''/'', [''GET''], ''root''),
      (''/version'', [''GET''], ''version''),
      (''/about'', [''GET''], ''about''),
      (''/get-table'', [''POST''], ''get_table''),
      (''/join'', [''POST''], ''join''),
      (''/union'', [''POST''], ''union''),
      (''/create-table'', [''POST''], ''create_table'')]"

text \<open>\<open>url_for(endpoint)\<close>: the path of the rule with that endpoint.\<close>

definition url_for :: "string \<Rightarrow> exn + string" where
  "url_for endpoint =
     (case find (\<lambda>(rule, methods, ep). ep = endpoint) url_map of
        None \<Rightarrow> Inl (Exception ''BuildError'' endpoint)
      | Some (rule, methods, ep) \<Rightarrow> Inr rule)"

definition root :: "request \<Rightarrow> exn + response option" where
  "root request =
     (case url_for ''about'' of
        Inl e \<Rightarrow> Inl e
      | Inr location \<Rightarrow> Inr (Some (redirect location)))"

definition version :: "request \<Rightarrow> exn + response option" where
  "version request =
     (let version = [(''status'', PInt OK_STATUS),
                     (''api_name'', PStr ''Apollo''),
                     (''version'', PFloat VERSION),
                     (''license'', PStr ''Apache 2.0'')]
      in case jsonify (PDict version) of Inl e \<Rightarrow> Inl e | Inr resp \<Rightarrow> Inr (Some resp))"

text \<open>The author's name holds one letter outside ASCII, written as its two bytes.\<close>

definition about :: "request \<Rightarrow> exn + response option" where
  "about request =
     (let about = [(''api_name'', PStr ''Apollo''),
                   (''version'', PFloat VERSION),
                   (''author_name'', PStr (''Juan A. Aguilar-Jim'' @ [CHR 0xC3, CHR 0xA9] @ ''nez'')),
                   (''author_email'', PStr ''juanantonioaguilar@gmail.com''),
                   (''project_repository'', PStr ''https://github.com/jasset75/apollo.github''),
                   (''documentation'', PStr ''http://jasset75.github.io/apollo''),
                   (''license'', PStr ''Apache 2.0'')]
      in case jsonify (PDict about) of Inl e \<Rightarrow> Inl e | Inr resp \<Rightarrow> Inr (Some resp))"

text \<open>
  The handler of 404. It takes the error and not the request, and it returns the value of
  \<open>jsonify\<close> as it is, so the response has status 200 and no header of the decorator.
\<close>

definition page_not_found :: "exn \<Rightarrow> exn + response" where
  "page_not_found e =
     (let error_api_404 = [(''status'', PInt 404),
                           (''error_message'', PStr ''Apollo API endpoint not found.''),
                           (''api_name'', PStr ''Apollo''),
                           (''version'', PFloat VERSION),
                           (''author'', PStr ''juanantonioaguilar@gmail.com''),
                           (''license'', PStr ''Apache 2.0'')]
      in jsonify (PDict error_api_404))"

section \<open>The POST views\<close>

text \<open>
  The modules \<open>quiver\<close> and \<open>admix\<close> are not part of the repository. Their functions
  are parameters: each takes its argument and either raises or returns. \<open>unpack\<close>
  returns the dictionary of keyword parameters; the calls \<open>f(**metadata)\<close> take that
  dictionary.
\<close>

record backend =
  unpack_table :: "pyval \<Rightarrow> exn + dict"
  unpack_join :: "pyval \<Rightarrow> exn + dict"
  unpack_union :: "pyval \<Rightarrow> exn + dict"
  quiver_get_table :: "dict \<Rightarrow> exn + pyval"
  quiver_join :: "dict \<Rightarrow> exn + pyval"
  quiver_union :: "dict \<Rightarrow> exn + pyval"
  admix_create_table :: "dict \<Rightarrow> exn + pyval"

text \<open>
  The clause \<open>except Exception as e\<close>, the same in the four views. It gets the exception
  and \<open>metadata\<close> as it is when the exception is raised. An exception outside
  \<open>Exception\<close> is not caught; one raised inside the clause leaves the view.
\<close>

definition except_clause :: "exn \<Rightarrow> dict \<Rightarrow> exn + response option" where
  "except_clause e metadata =
     (case e of
        BaseException c m \<Rightarrow> Inl e
      | Exception c m \<Rightarrow>
          (let metadata = setitem ''status'' (PInt DEF_ERROR_CODE) metadata;
               metadata = setitem ''error_message'' (PStr (str_e e)) metadata
           in case json_dumps (PDict metadata) of
                Inl e' \<Rightarrow> Inl e'
              | Inr text \<Rightarrow>
                  (case getitem metadata ''status'' of
                     Inl e' \<Rightarrow> Inl e'
                   | Inr status \<Rightarrow>
                       (case Response text status ''application/json'' of
                          Inl e' \<Rightarrow> Inl e'
                        | Inr resp \<Rightarrow> Inr (Some resp)))))"

text \<open>
  The body of each \<open>try\<close>: the value returned, or the exception with \<open>metadata\<close> at
  that point. When the method is not POST the body falls through and the view returns
  \<open>None\<close>.
\<close>

definition get_table_try :: "backend \<Rightarrow> request \<Rightarrow> (exn \<times> dict) + response option" where
  "get_table_try B request =
     (let metadata = [] in
      if request_method request = ''POST'' then
        (case get_json request of
           Inl e \<Rightarrow> Inl (e, metadata)
         | Inr request_json \<Rightarrow>
        (case unpack_table B request_json of
           Inl e \<Rightarrow> Inl (e, metadata)
         | Inr metadata \<Rightarrow>
        (case quiver_get_table B metadata of
           Inl e \<Rightarrow> Inl (e, metadata)
         | Inr data \<Rightarrow>
          (let metadata = setitem ''data'' data metadata;
               metadata = setitem ''success'' (PBool True) metadata;
               metadata = setitem ''status'' (PInt OK_STATUS) metadata
           in case jsonify (PDict metadata) of
                Inl e \<Rightarrow> Inl (e, metadata)
              | Inr resp \<Rightarrow> Inr (Some resp)))))
      else Inr None)"

definition get_table :: "backend \<Rightarrow> request \<Rightarrow> exn + response option" where
  "get_table B request =
     (case get_table_try B request of
        Inr rv \<Rightarrow> Inr rv
      | Inl (e, metadata) \<Rightarrow> except_clause e metadata)"

definition join_try :: "backend \<Rightarrow> request \<Rightarrow> (exn \<times> dict) + response option" where
  "join_try B request =
     (let metadata = [] in
      if request_method request = ''POST'' then
        (case get_json request of
           Inl e \<Rightarrow> Inl (e, metadata)
         | Inr request_json \<Rightarrow>
        (case unpack_join B request_json of
           Inl e \<Rightarrow> Inl (e, metadata)
         | Inr metadata \<Rightarrow>
        (let metadata = setitem ''format'' (PStr ''dict'') metadata in
         case quiver_join B metadata of
           Inl e \<Rightarrow> Inl (e, metadata)
         | Inr data \<Rightarrow>
          (let metadata = setitem ''data'' data metadata;
               metadata = setitem ''status'' (PInt OK_STATUS) metadata;
               metadata = setitem ''success'' (PBool True) metadata
           in case jsonify (PDict metadata) of
                Inl e \<Rightarrow> Inl (e, metadata)
              | Inr resp \<Rightarrow> Inr (Some resp)))))
      else Inr None)"

definition join :: "backend \<Rightarrow> request \<Rightarrow> exn + response option" where
  "join B request =
     (case join_try B request of
        Inr rv \<Rightarrow> Inr rv
      | Inl (e, metadata) \<Rightarrow> except_clause e metadata)"

definition union_try :: "backend \<Rightarrow> request \<Rightarrow> (exn \<times> dict) + response option" where
  "union_try B request =
     (let metadata = [] in
      if request_method request = ''POST'' then
        (case get_json request of
           Inl e \<Rightarrow> Inl (e, metadata)
         | Inr request_json \<Rightarrow>
        (case unpack_union B request_json of
           Inl e \<Rightarrow> Inl (e, metadata)
         | Inr metadata \<Rightarrow>
        (let metadata = setitem ''format'' (PStr ''dict'') metadata in
         case quiver_union B metadata of
           Inl e \<Rightarrow> Inl (e, metadata)
         | Inr data \<Rightarrow>
          (let metadata = setitem ''data'' data metadata;
               metadata = setitem ''success'' (PBool True) metadata;
               metadata = setitem ''status'' (PInt OK_STATUS) metadata
           in case jsonify (PDict metadata) of
                Inl e \<Rightarrow> Inl (e, metadata)
              | Inr resp \<Rightarrow> Inr (Some resp)))))
      else Inr None)"

definition union :: "backend \<Rightarrow> request \<Rightarrow> exn + response option" where
  "union B request =
     (case union_try B request of
        Inr rv \<Rightarrow> Inr rv
      | Inl (e, metadata) \<Rightarrow> except_clause e metadata)"

text \<open>
  \<open>create_table\<close> unpacks the three parameters itself and answers through
  \<open>Response(json.dumps(metadata), ...)\<close> on success too.
\<close>

definition create_table_try :: "backend \<Rightarrow> request \<Rightarrow> (exn \<times> dict) + response option" where
  "create_table_try B request =
     (let metadata = [] in
      if request_method request = ''POST'' then
        (case get_json request of
           Inl e \<Rightarrow> Inl (e, metadata)
         | Inr request_json \<Rightarrow>
        (case py_get request_json ''keyspace'' of
           Inl e \<Rightarrow> Inl (e, metadata)
         | Inr keyspace \<Rightarrow>
        (let metadata = setitem ''keyspace'' keyspace metadata in
         case py_get request_json ''tablename'' of
           Inl e \<Rightarrow> Inl (e, metadata)
         | Inr tablename \<Rightarrow>
        (let metadata = setitem ''tablename'' tablename metadata in
         case py_get request_json ''columns'' of
           Inl e \<Rightarrow> Inl (e, metadata)
         | Inr columns \<Rightarrow>
        (let metadata = setitem ''columns'' columns metadata in
         case admix_create_table B metadata of
           Inl e \<Rightarrow> Inl (e, metadata)
         | Inr data \<Rightarrow>
          (let metadata = setitem ''data'' data metadata;
               metadata = setitem ''success'' (PBool True) metadata;
               metadata = setitem ''status'' (PInt OK_CREATE_STATUS) metadata
           in case json_dumps (PDict metadata) of
                Inl e \<Rightarrow> Inl (e, metadata)
              | Inr text \<Rightarrow>
                  (case getitem metadata ''status'' of
                     Inl e \<Rightarrow> Inl (e, metadata)
                   | Inr status \<Rightarrow>
                       (case Response text status ''application/json'' of
                          Inl e \<Rightarrow> Inl (e, metadata)
                        | Inr resp \<Rightarrow> Inr (Some resp)))))))))
      else Inr None)"

definition create_table :: "backend \<Rightarrow> request \<Rightarrow> exn + response option" where
  "create_table B request =
     (case create_table_try B request of
        Inr rv \<Rightarrow> Inr rv
      | Inl (e, metadata) \<Rightarrow> except_clause e metadata)"

section \<open>Routing\<close>

text \<open>
  \<open>view_functions\<close>: each endpoint with its decorator. Every decorator names the path
  of its own rule, except the one of \<open>root\<close>, which names \<open>/about\<close>.
\<close>

definition view_functions :: "backend \<Rightarrow> (string \<times> (request \<Rightarrow> exn + response)) list" where
  "view_functions B =
     [(''root'', add_response_headers [(''Location'', ''/about'')] root),
      (''version'', add_response_headers [(''Location'', ''/version'')] version),
      (''about'', add_response_headers [(''Location'', ''/about'')] about),
      (''get_table'', add_response_headers [(''Location'', ''/get-table'')] (get_table B)),
      (''join'', add_response_headers [(''Location'', ''/join'')] (join B)),
      (''union'', add_response_headers [(''Location'', ''/union'')] (union B)),
      (''create_table'',
         add_response_headers [(''Location'', ''/create-table'')] (create_table B))]"

text \<open>
  What Flask does with a request. A path with no rule goes to the handler of 404. For a
  path with a rule, Flask answers \<open>OPTIONS\<close> itself, sends \<open>HEAD\<close> to a view for
  \<open>GET\<close>, and answers 405 for a method the rule does not list; otherwise the view of the
  endpoint runs. An exception that leaves the view is the result \<open>Inl\<close>: Flask answers
  it with a page of its own. Flask's rule for the files of a \<open>static\<close> folder is left
  out: the repository has no such folder, and a file that is missing ends in the same
  404 handler.
\<close>

definition allowed :: "string \<Rightarrow> string list \<Rightarrow> bool" where
  "allowed m methods = (m \<in> set methods \<or> (m = ''HEAD'' \<and> ''GET'' \<in> set methods))"

definition dispatch :: "backend \<Rightarrow> request \<Rightarrow> exn + response" where
  "dispatch B request =
     (case map_of url_map (path request) of
        None \<Rightarrow> page_not_found (Exception ''NotFound'' ''404 Not Found'')
      | Some (methods, endpoint) \<Rightarrow>
          if request_method request = ''OPTIONS'' then
            Inr \<lparr>status_code = 200, mimetype = ''text/html'', headers = [], body = Empty\<rparr>
          else if allowed (request_method request) methods then
            (case map_of (view_functions B) endpoint of
               None \<Rightarrow> Inl (Exception ''KeyError'' endpoint)
             | Some view \<Rightarrow> view request)
          else
            Inr \<lparr>status_code = 405, mimetype = ''text/html'', headers = [],
                 body = ErrorPage 405\<rparr>)"

section \<open>What the specification asks of a response\<close>

subsection \<open>ISO-8601 strings\<close>








subsection \<open>The envelope\<close>


subsection \<open>Reserved keys\<close>


subsection \<open>Echoed parameters\<close>


subsection \<open>The fields of an encoded dictionary\<close>

text \<open>
  \<open>encodes c kvs fs\<close>: the fields \<open>fs\<close> are the items of the dictionary \<open>kvs\<close>, key by
  key in the same order, each value encoded by the encoder \<open>c\<close>.
\<close>

definition encodes :: "encoder \<Rightarrow> dict \<Rightarrow> (string \<times> json) list \<Rightarrow> bool" where
  "encodes c kvs fs =
     list_all2 (\<lambda>kv f. fst f = fst kv \<and> iterencode c (snd kv) = Inr (snd f)) kvs fs"

section \<open>Sample requests, backends and answers\<close>

text \<open>A JSON response with no header yet, as the views build it.\<close>

definition json_response :: "int \<Rightarrow> (string \<times> json) list \<Rightarrow> response" where
  "json_response st fs =
     \<lparr>status_code = st, mimetype = ''application/json'', headers = [],
      body = Json (JObj fs)\<rparr>"

definition post :: "string \<Rightarrow> pyval \<Rightarrow> request" where
  "post p request_json = \<lparr>request_method = ''POST'', path = p, get_json = Inr request_json\<rparr>"

definition get :: "string \<Rightarrow> request" where
  "get p = \<lparr>request_method = ''GET'', path = p, get_json = Inr PNone\<rparr>"

definition table_request :: pyval where
  "table_request = PDict [(''keyspace'', PStr ''examples''), (''tablename'', PStr ''mock'')]"

text \<open>A backend that unpacks the two names of the request and returns one row.\<close>

definition unpack_names :: "pyval \<Rightarrow> exn + dict" where
  "unpack_names request_json =
     (case py_get request_json ''keyspace'' of
        Inl e \<Rightarrow> Inl e
      | Inr keyspace \<Rightarrow>
          (case py_get request_json ''tablename'' of
             Inl e \<Rightarrow> Inl e
           | Inr tablename \<Rightarrow> Inr [(''keyspace'', keyspace), (''tablename'', tablename)]))"

definition one_row :: "dict \<Rightarrow> exn + pyval" where
  "one_row params = Inr (PList [PDict [(''id'', NpInt int64 7), (''name'', PStr ''a'')]])"

definition created :: "dict \<Rightarrow> exn + pyval" where
  "created params = Inr (PStr ''created'')"

definition backend_ok :: backend where
  "backend_ok =
     \<lparr>unpack_table = unpack_names, unpack_join = unpack_names, unpack_union = unpack_names,
      quiver_get_table = one_row, quiver_join = one_row, quiver_union = one_row,
      admix_create_table = created\<rparr>"

text \<open>The same backend with every operation raising \<open>ValueError\<close>.\<close>

definition no_such_table :: exn where
  "no_such_table = Exception ''ValueError'' ''no such table''"

definition raise_ValueError :: "dict \<Rightarrow> exn + pyval" where
  "raise_ValueError params = Inl no_such_table"

definition backend_raises :: backend where
  "backend_raises =
     \<lparr>unpack_table = unpack_names, unpack_join = unpack_names, unpack_union = unpack_names,
      quiver_get_table = raise_ValueError, quiver_join = raise_ValueError,
      quiver_union = raise_ValueError, admix_create_table = raise_ValueError\<rparr>"

text \<open>A backend interrupted from the keyboard during the call.\<close>

definition raise_KeyboardInterrupt :: "dict \<Rightarrow> exn + pyval" where
  "raise_KeyboardInterrupt params = Inl (BaseException ''KeyboardInterrupt'' [])"

definition backend_interrupted :: backend where
  "backend_interrupted =
     \<lparr>unpack_table = unpack_names, unpack_join = unpack_names, unpack_union = unpack_names,
      quiver_get_table = raise_KeyboardInterrupt, quiver_join = raise_KeyboardInterrupt,
      quiver_union = raise_KeyboardInterrupt,
      admix_create_table = raise_KeyboardInterrupt\<rparr>"

text \<open>
  An \<open>unpack\<close> that turns the text of a date into a \<open>date\<close>, with operations that
  raise.
\<close>

definition unpack_since :: "pyval \<Rightarrow> exn + dict" where
  "unpack_since request_json =
     Inr [(''tablename'', PStr ''mock''), (''since'', PDate (Date 2018 5 17))]"

definition backend_dates :: backend where
  "backend_dates =
     \<lparr>unpack_table = unpack_since, unpack_join = unpack_since, unpack_union = unpack_since,
      quiver_get_table = raise_ValueError, quiver_join = raise_ValueError,
      quiver_union = raise_ValueError, admix_create_table = raise_ValueError\<rparr>"



text \<open>
  What the sample backends unpack from \<open>table_request\<close>, its fields once encoded, the
  row of \<open>one_row\<close> once encoded, and the answers of the views to \<open>table_request\<close>:
  on success with \<open>backend_ok\<close>, on failure with \<open>backend_raises\<close>.
\<close>

definition sample_params :: dict where
  "sample_params = [(''keyspace'', PStr ''examples''), (''tablename'', PStr ''mock'')]"

definition sample_fields :: "(string \<times> json) list" where
  "sample_fields = [(''keyspace'', JStr ''examples''), (''tablename'', JStr ''mock'')]"

definition sample_rows :: json where
  "sample_rows = JArr [JObj [(''id'', JInt 7), (''name'', JStr ''a'')]]"

definition get_table_answer :: response where
  "get_table_answer =
     json_response 200
       (sample_fields @ [(''data'', sample_rows), (''success'', JBool True),
                         (''status'', JInt 200)])"

definition join_answer :: response where
  "join_answer =
     json_response 200
       (sample_fields @ [(''format'', JStr ''dict''), (''data'', sample_rows),
                         (''status'', JInt 200), (''success'', JBool True)])"

definition union_answer :: response where
  "union_answer =
     json_response 200
       (sample_fields @ [(''format'', JStr ''dict''), (''data'', sample_rows),
                         (''success'', JBool True), (''status'', JInt 200)])"

definition create_table_answer :: response where
  "create_table_answer =
     json_response 201
       (sample_fields @ [(''columns'', JNull), (''data'', JStr ''created''),
                         (''success'', JBool True), (''status'', JInt 201)])"

definition get_table_failure :: response where
  "get_table_failure =
     json_response 500
       (sample_fields @ [(''status'', JInt 500),
                         (''error_message'', JStr ''no such table'')])"

definition join_failure :: response where
  "join_failure =
     json_response 500
       (sample_fields @ [(''format'', JStr ''dict''), (''status'', JInt 500),
                         (''error_message'', JStr ''no such table'')])"

definition create_table_failure :: response where
  "create_table_failure =
     json_response 500
       (sample_fields @ [(''columns'', JNull), (''status'', JInt 500),
                         (''error_message'', JStr ''no such table'')])"

text \<open>The message of the \<open>AttributeError\<close> when the body of the request is \<open>null\<close>.\<close>

definition no_get_message :: string where
  "no_get_message =
     [CHR 0x27] @ ''NoneType'' @ [CHR 0x27] @ '' object has no attribute ''
     @ [CHR 0x27] @ ''get'' @ [CHR 0x27]"

text \<open>The answer of the 404 handler.\<close>

definition not_found_answer :: response where
  "not_found_answer =
     json_response 200
       [(''status'', JInt 404),
        (''error_message'', JStr ''Apollo API endpoint not found.''),
        (''api_name'', JStr ''Apollo''),
        (''version'', JFloat (Finite 1 0)),
        (''author'', JStr ''juanantonioaguilar@gmail.com''),
        (''license'', JStr ''Apache 2.0'')]"

section \<open>Properties of the encoders\<close>

lemma sequence_map_Inr:
  "sequence (map f xs) = Inr ys \<longleftrightarrow> list_all2 (\<lambda>x y. f x = Inr y) xs ys"
proof (induction xs arbitrary: ys)
  case Nil
  show ?case by auto
next
  case (Cons x xs)
  show ?case
  proof (cases "f x")
    case (Inl e)
    then show ?thesis by (simp add: list_all2_Cons1)
  next
    case fx: (Inr y)
    show ?thesis
    proof (cases "sequence (map f xs)")
      case (Inl e)
      have "\<not> list_all2 (\<lambda>x y. f x = Inr y) xs zs" for zs
        unfolding Cons.IH[symmetric] Inl by simp
      with Inl fx show ?thesis by (simp add: list_all2_Cons1)
    next
      case (Inr zs)
      have "list_all2 (\<lambda>x y. f x = Inr y) xs zs' \<longleftrightarrow> zs' = zs" for zs'
        unfolding Cons.IH[symmetric] Inr by auto
      with Inr fx show ?thesis by (auto simp: list_all2_Cons1)
    qed
  qed
qed

lemma sequence_map_Inl:
  "sequence (map f xs) = Inl e \<Longrightarrow> \<exists>x \<in> set xs. f x = Inl e"
  by (induction xs) (auto split: sum.splits)

lemma iterencode_PList:
  "iterencode c (PList xs) = Inr j \<longleftrightarrow>
     (\<exists>js. j = JArr js \<and> list_all2 (\<lambda>x y. iterencode c x = Inr y) xs js)"
  by (cases "sequence (map (iterencode c) xs)") (auto simp: sequence_map_Inr[symmetric])

lemma field_Inr:
  "(case kv of (k, v) \<Rightarrow> case iterencode c v of Inl e \<Rightarrow> Inl e | Inr j \<Rightarrow> Inr (k, j)) = Inr f
     \<longleftrightarrow> fst f = fst kv \<and> iterencode c (snd kv) = Inr (snd f)"
  by (cases kv; cases f) (auto split: sum.splits)

lemma iterencode_PDict:
  "iterencode c (PDict kvs) = Inr j \<longleftrightarrow> (\<exists>fs. j = JObj fs \<and> encodes c kvs fs)"
proof -
  let ?f = "\<lambda>(k, v). case iterencode c v of Inl e \<Rightarrow> Inl e | Inr j \<Rightarrow> Inr (k, j)"
  have "encodes c kvs fs \<longleftrightarrow> sequence (map ?f kvs) = Inr fs" for fs
    unfolding encodes_def sequence_map_Inr by (simp add: field_Inr)
  then show ?thesis
    by (cases "sequence (map ?f kvs)") auto
qed

lemma iterencode_PDict_Inl:
  assumes "iterencode c (PDict kvs) = Inl e"
  shows "\<exists>kv \<in> set kvs. iterencode c (snd kv) = Inl e"
proof -
  let ?f = "\<lambda>(k, v). case iterencode c v of Inl e \<Rightarrow> Inl e | Inr j \<Rightarrow> Inr (k, j)"
  from assms have "sequence (map ?f kvs) = Inl e"
    by (simp split: sum.splits)
  then obtain kv where kv: "kv \<in> set kvs" "?f kv = Inl e"
    using sequence_map_Inl[of ?f kvs e] by blast
  from kv(2) have "iterencode c (snd kv) = Inl e"
    by (cases kv) (simp split: sum.splits)
  with kv(1) show ?thesis by blast
qed

lemma encodes_Nil [simp]: "encodes c [] fs \<longleftrightarrow> fs = []"
  by (simp add: encodes_def)

lemma encodes_Cons:
  "encodes c (kv # kvs) fs \<longleftrightarrow>
     (\<exists>j fs'. fs = (fst kv, j) # fs' \<and> iterencode c (snd kv) = Inr j \<and> encodes c kvs fs')"
  by (auto simp: encodes_def list_all2_Cons1)



lemma encodes_map_of_Some:
  "encodes c kvs fs \<Longrightarrow> map_of kvs k = Some v \<Longrightarrow>
     \<exists>j. iterencode c v = Inr j \<and> map_of fs k = Some j"
  by (induction kvs arbitrary: fs) (auto simp: encodes_Cons split: if_splits)

lemma encodes_setitem:
  "encodes c kvs fs \<Longrightarrow> iterencode c v = Inr j \<Longrightarrow>
     encodes c (setitem k v kvs) (setitem k j fs)"
  by (induction kvs arbitrary: fs) (auto simp: encodes_Cons)



lemma map_of_setitem:
  "map_of (setitem k v kvs) k' = (if k' = k then Some v else map_of kvs k')"
  by (induction kvs) auto



lemma std_then_customized:
  "iterencode JSONEncoder v = Inr j \<Longrightarrow> iterencode CustomizedEncoder v = Inr j"
proof (induction "JSONEncoder" v arbitrary: j rule: iterencode.induct)
  case (6 xs)
  from 6(2) obtain js where js: "j = JArr js"
      "list_all2 (\<lambda>x y. iterencode JSONEncoder x = Inr y) xs js"
    unfolding iterencode_PList by blast
  have "list_all2 (\<lambda>x y. iterencode CustomizedEncoder x = Inr y) xs js"
    by (rule list.rel_mono_strong[OF js(2)]) (rule 6(1))
  with js(1) show ?case unfolding iterencode_PList by blast
next
  case (7 kvs)
  from 7(2) obtain fs where fs: "j = JObj fs" "encodes JSONEncoder kvs fs"
    unfolding iterencode_PDict by blast
  have "encodes CustomizedEncoder kvs fs"
    unfolding encodes_def
  proof (rule list.rel_mono_strong[OF fs(2)[unfolded encodes_def]])
    fix kv f
    assume kv: "kv \<in> set kvs" and "f \<in> set fs"
      and h: "fst f = fst kv \<and> iterencode JSONEncoder (snd kv) = Inr (snd f)"
    from kv have "(fst kv, snd kv) \<in> set kvs" by simp
    from 7(1)[OF this refl] h
    show "fst f = fst kv \<and> iterencode CustomizedEncoder (snd kv) = Inr (snd f)"
      by simp
  qed
  with fs(1) show ?case unfolding iterencode_PDict by blast
next
  case (8 k f)
  then show ?case
    by (cases "k = float64") (simp_all add: JSONEncoder_default_def)
qed (simp_all add: JSONEncoder_default_def)

lemma dumps_PDict:
  "dumps c (PDict kvs) = Inr j \<longleftrightarrow> (\<exists>fs. j = JObj fs \<and> encodes c kvs fs)"
  unfolding dumps_def by (rule iterencode_PDict)

section \<open>The static views and the 404 handler\<close>

text \<open>
  C6: \<open>GET /\<close> is answered by a redirect to \<open>/about\<close>; \<open>GET /about\<close> and
  \<open>GET /version\<close> are answered by JSON objects that hold \<open>api_name = 'Apollo'\<close> and
  \<open>license = 'Apache 2.0'\<close>, whatever the backend and the body of the request.
\<close>

theorem static_views:
  "dispatch B \<lparr>request_method = ''GET'', path = ''/'', get_json = g\<rparr> =
     Inr \<lparr>status_code = 302, mimetype = ''text/html'',
          headers = [(''Location'', ''/about'')], body = RedirectPage ''/about''\<rparr>
   \<and> (\<exists>fs. dispatch B \<lparr>request_method = ''GET'', path = ''/about'', get_json = g\<rparr> =
              Inr \<lparr>status_code = 200, mimetype = ''application/json'',
                   headers = [(''Location'', ''/about'')], body = Json (JObj fs)\<rparr>
          \<and> map_of fs ''api_name'' = Some (JStr ''Apollo'')
          \<and> map_of fs ''license'' = Some (JStr ''Apache 2.0''))
   \<and> (\<exists>fs. dispatch B \<lparr>request_method = ''GET'', path = ''/version'', get_json = g\<rparr> =
              Inr \<lparr>status_code = 200, mimetype = ''application/json'',
                   headers = [(''Location'', ''/version'')], body = Json (JObj fs)\<rparr>
          \<and> map_of fs ''api_name'' = Some (JStr ''Apollo'')
          \<and> map_of fs ''license'' = Some (JStr ''Apache 2.0''))"
proof (intro conjI)
  show "dispatch B \<lparr>request_method = ''GET'', path = ''/'', get_json = g\<rparr> =
     Inr \<lparr>status_code = 302, mimetype = ''text/html'',
          headers = [(''Location'', ''/about'')], body = RedirectPage ''/about''\<rparr>"
    by (simp add: dispatch_def url_map_def allowed_def view_functions_def
        add_response_headers_def root_def url_for_def redirect_def make_response_def)
  show "\<exists>fs. dispatch B \<lparr>request_method = ''GET'', path = ''/about'', get_json = g\<rparr> =
              Inr \<lparr>status_code = 200, mimetype = ''application/json'',
                   headers = [(''Location'', ''/about'')], body = Json (JObj fs)\<rparr>
          \<and> map_of fs ''api_name'' = Some (JStr ''Apollo'')
          \<and> map_of fs ''license'' = Some (JStr ''Apache 2.0'')"
    by (simp add: dispatch_def url_map_def allowed_def view_functions_def
        add_response_headers_def about_def jsonify_def dumps_def make_response_def)
  show "\<exists>fs. dispatch B \<lparr>request_method = ''GET'', path = ''/version'', get_json = g\<rparr> =
              Inr \<lparr>status_code = 200, mimetype = ''application/json'',
                   headers = [(''Location'', ''/version'')], body = Json (JObj fs)\<rparr>
          \<and> map_of fs ''api_name'' = Some (JStr ''Apollo'')
          \<and> map_of fs ''license'' = Some (JStr ''Apache 2.0'')"
    by (simp add: dispatch_def url_map_def allowed_def view_functions_def
        add_response_headers_def version_def jsonify_def dumps_def make_response_def)
qed

text \<open>
  C7: a request whose path has no rule gets one fixed JSON object, the same for every
  path, which holds \<open>status = 404\<close>, \<open>api_name = 'Apollo'\<close> and the license.
\<close>

theorem unknown_path_fixed_body:
  assumes "path request \<notin> set (map fst url_map)"
  shows "dispatch B request =
     Inr \<lparr>status_code = 200, mimetype = ''application/json'', headers = [],
          body = Json (JObj [(''status'', JInt 404),
              (''error_message'', JStr ''Apollo API endpoint not found.''),
              (''api_name'', JStr ''Apollo''),
              (''version'', JFloat (Finite 1 0)),
              (''author'', JStr ''juanantonioaguilar@gmail.com''),
              (''license'', JStr ''Apache 2.0'')])\<rparr>"
proof -
  from assms have "map_of url_map (path request) = None"
    by (simp add: map_of_eq_None_iff)
  then show ?thesis
    by (simp add: dispatch_def page_not_found_def jsonify_def dumps_def VERSION_def)
qed

theorem unknown_path_fixed_body_witness:
  "path (get ''/tables'') \<notin> set (map fst url_map)
   \<and> dispatch backend_ok (get ''/tables'') =
     Inr \<lparr>status_code = 200, mimetype = ''application/json'', headers = [],
          body = Json (JObj [(''status'', JInt 404),
              (''error_message'', JStr ''Apollo API endpoint not found.''),
              (''api_name'', JStr ''Apollo''),
              (''version'', JFloat (Finite 1 0)),
              (''author'', JStr ''juanantonioaguilar@gmail.com''),
              (''license'', JStr ''Apache 2.0'')])\<rparr>"
proof -
  have h: "path (get ''/tables'') \<notin> set (map fst url_map)"
    by (simp add: get_def url_map_def)
  show ?thesis
    using h unknown_path_fixed_body [OF h, of backend_ok] by simp
qed

section \<open>The POST views, case by case\<close>

text \<open>
  What the \<open>except\<close> clause returns, and every way in which the body of a \<open>try\<close>
  ends: with a response, with \<open>None\<close>, or with an exception and the \<open>metadata\<close> of
  that moment.
\<close>

lemma except_clause_Inr:
  "except_clause e md = Inr rv \<longleftrightarrow>
     (\<exists>c m text. e = Exception c m
        \<and> json_dumps (PDict (setitem ''error_message'' (PStr m)
                               (setitem ''status'' (PInt 500) md))) = Inr text
        \<and> rv = Some \<lparr>status_code = 500, mimetype = ''application/json'', headers = [],
                      body = Json text\<rparr>)"
  by (cases e)
    (auto simp: except_clause_def Let_def getitem_def map_of_setitem Response_def
      DEF_ERROR_CODE_def split: sum.splits)

lemma get_table_try_Inr:
  "get_table_try B request = Inr rv \<longleftrightarrow>
     (request_method request \<noteq> ''POST'' \<and> rv = None)
     \<or> (request_method request = ''POST''
        \<and> (\<exists>rj d v text. get_json request = Inr rj \<and> unpack_table B rj = Inr d
              \<and> quiver_get_table B d = Inr v
              \<and> dumps CustomizedEncoder
                    (PDict (setitem ''status'' (PInt 200) (setitem ''success'' (PBool True)
                              (setitem ''data'' v d)))) = Inr text
              \<and> rv = Some \<lparr>status_code = 200, mimetype = ''application/json'',
                            headers = [], body = Json text\<rparr>))"
  by (auto simp: get_table_try_def Let_def jsonify_def app_json_encoder_def OK_STATUS_def
      split: sum.splits)


lemma join_try_Inr:
  "join_try B request = Inr rv \<longleftrightarrow>
     (request_method request \<noteq> ''POST'' \<and> rv = None)
     \<or> (request_method request = ''POST''
        \<and> (\<exists>rj d v text. get_json request = Inr rj \<and> unpack_join B rj = Inr d
              \<and> quiver_join B (setitem ''format'' (PStr ''dict'') d) = Inr v
              \<and> dumps CustomizedEncoder (PDict (setitem ''success'' (PBool True)
                  (setitem ''status'' (PInt 200) (setitem ''data'' v
                  (setitem ''format'' (PStr ''dict'') d))))) = Inr text
              \<and> rv = Some \<lparr>status_code = 200, mimetype = ''application/json'',
                            headers = [], body = Json text\<rparr>))"
  by (auto simp: join_try_def Let_def jsonify_def app_json_encoder_def OK_STATUS_def
      split: sum.splits)


lemma union_try_Inr:
  "union_try B request = Inr rv \<longleftrightarrow>
     (request_method request \<noteq> ''POST'' \<and> rv = None)
     \<or> (request_method request = ''POST''
        \<and> (\<exists>rj d v text. get_json request = Inr rj \<and> unpack_union B rj = Inr d
              \<and> quiver_union B (setitem ''format'' (PStr ''dict'') d) = Inr v
              \<and> dumps CustomizedEncoder (PDict (setitem ''status'' (PInt 200)
                  (setitem ''success'' (PBool True) (setitem ''data'' v
                  (setitem ''format'' (PStr ''dict'') d))))) = Inr text
              \<and> rv = Some \<lparr>status_code = 200, mimetype = ''application/json'',
                            headers = [], body = Json text\<rparr>))"
  by (auto simp: union_try_def Let_def jsonify_def app_json_encoder_def OK_STATUS_def
      split: sum.splits)


lemma create_table_try_Inr:
  "create_table_try B request = Inr rv \<longleftrightarrow>
     (request_method request \<noteq> ''POST'' \<and> rv = None)
     \<or> (request_method request = ''POST''
        \<and> (\<exists>rj ks tn cols v text. get_json request = Inr rj
              \<and> py_get rj ''keyspace'' = Inr ks \<and> py_get rj ''tablename'' = Inr tn
              \<and> py_get rj ''columns'' = Inr cols
              \<and> admix_create_table B
                    [(''keyspace'', ks), (''tablename'', tn), (''columns'', cols)] = Inr v
              \<and> json_dumps (PDict [(''keyspace'', ks), (''tablename'', tn),
                     (''columns'', cols), (''data'', v), (''success'', PBool True),
                     (''status'', PInt 201)]) = Inr text
              \<and> rv = Some \<lparr>status_code = 201, mimetype = ''application/json'',
                            headers = [], body = Json text\<rparr>))"
  by (auto simp: create_table_try_def Let_def getitem_def Response_def
      OK_CREATE_STATUS_def split: sum.splits)


lemma dumps_field:
  assumes "dumps c (PDict md) = Inr jb" and "map_of md k = Some x"
  shows "\<exists>fs j. jb = JObj fs \<and> iterencode c x = Inr j \<and> map_of fs k = Some j"
proof -
  from assms(1) obtain fs where fs: "jb = JObj fs" "encodes c md fs"
    unfolding dumps_PDict by blast
  from encodes_map_of_Some[OF fs(2) assms(2)] fs(1) show ?thesis by blast
qed

section \<open>Status codes on success\<close>

text \<open>
  C9: when the body of the \<open>try\<close> returns its response (the success path), the view
  returns that response; for \<open>/get-table\<close>, \<open>/join\<close> and \<open>/union\<close> its HTTP status
  and the \<open>status\<close> field of its body are 200, for \<open>/create-table\<close> both are 201.
\<close>

theorem success_status_codes:
  "(get_table_try B request = Inr (Some resp) \<longrightarrow>
      get_table B request = Inr (Some resp) \<and> status_code resp = 200
      \<and> (\<exists>fs. body resp = Json (JObj fs) \<and> map_of fs ''status'' = Some (JInt 200)))
   \<and> (join_try B request = Inr (Some resp) \<longrightarrow>
      join B request = Inr (Some resp) \<and> status_code resp = 200
      \<and> (\<exists>fs. body resp = Json (JObj fs) \<and> map_of fs ''status'' = Some (JInt 200)))
   \<and> (union_try B request = Inr (Some resp) \<longrightarrow>
      union B request = Inr (Some resp) \<and> status_code resp = 200
      \<and> (\<exists>fs. body resp = Json (JObj fs) \<and> map_of fs ''status'' = Some (JInt 200)))
   \<and> (create_table_try B request = Inr (Some resp) \<longrightarrow>
      create_table B request = Inr (Some resp) \<and> status_code resp = 201
      \<and> (\<exists>fs. body resp = Json (JObj fs) \<and> map_of fs ''status'' = Some (JInt 201)))"
proof (intro conjI impI)
  assume h: "get_table_try B request = Inr (Some resp)"
  then show "get_table B request = Inr (Some resp)"
    by (simp add: get_table_def)
  from h obtain md jb where t: "dumps CustomizedEncoder (PDict md) = Inr jb"
      "map_of md ''status'' = Some (PInt 200)"
      "resp = \<lparr>status_code = 200, mimetype = ''application/json'', headers = [],
               body = Json jb\<rparr>"
    unfolding get_table_try_Inr by (auto simp: map_of_setitem)
  from t(3) show "status_code resp = 200" by simp
  from dumps_field[OF t(1,2)] t(3)
  show "\<exists>fs. body resp = Json (JObj fs) \<and> map_of fs ''status'' = Some (JInt 200)"
    by auto
next
  assume h: "join_try B request = Inr (Some resp)"
  then show "join B request = Inr (Some resp)"
    by (simp add: join_def)
  from h obtain md jb where t: "dumps CustomizedEncoder (PDict md) = Inr jb"
      "map_of md ''status'' = Some (PInt 200)"
      "resp = \<lparr>status_code = 200, mimetype = ''application/json'', headers = [],
               body = Json jb\<rparr>"
    unfolding join_try_Inr by (auto simp: map_of_setitem)
  from t(3) show "status_code resp = 200" by simp
  from dumps_field[OF t(1,2)] t(3)
  show "\<exists>fs. body resp = Json (JObj fs) \<and> map_of fs ''status'' = Some (JInt 200)"
    by auto
next
  assume h: "union_try B request = Inr (Some resp)"
  then show "union B request = Inr (Some resp)"
    by (simp add: union_def)
  from h obtain md jb where t: "dumps CustomizedEncoder (PDict md) = Inr jb"
      "map_of md ''status'' = Some (PInt 200)"
      "resp = \<lparr>status_code = 200, mimetype = ''application/json'', headers = [],
               body = Json jb\<rparr>"
    unfolding union_try_Inr by (auto simp: map_of_setitem)
  from t(3) show "status_code resp = 200" by simp
  from dumps_field[OF t(1,2)] t(3)
  show "\<exists>fs. body resp = Json (JObj fs) \<and> map_of fs ''status'' = Some (JInt 200)"
    by auto
next
  assume h: "create_table_try B request = Inr (Some resp)"
  then show "create_table B request = Inr (Some resp)"
    by (simp add: create_table_def)
  from h obtain md jb where t: "dumps JSONEncoder (PDict md) = Inr jb"
      "map_of md ''status'' = Some (PInt 201)"
      "resp = \<lparr>status_code = 201, mimetype = ''application/json'', headers = [],
               body = Json jb\<rparr>"
    unfolding create_table_try_Inr json_dumps_def by auto
  from t(3) show "status_code resp = 201" by simp
  from dumps_field[OF t(1,2)] t(3)
  show "\<exists>fs. body resp = Json (JObj fs) \<and> map_of fs ''status'' = Some (JInt 201)"
    by auto
qed

theorem success_status_codes_witness:
  "get_table_try backend_ok (post ''/get-table'' table_request) = Inr (Some get_table_answer)
   \<and> (get_table backend_ok (post ''/get-table'' table_request) = Inr (Some get_table_answer)
      \<and> status_code get_table_answer = 200
      \<and> (\<exists>fs. body get_table_answer = Json (JObj fs)
            \<and> map_of fs ''status'' = Some (JInt 200)))
   \<and> join_try backend_ok (post ''/join'' table_request) = Inr (Some join_answer)
   \<and> (join backend_ok (post ''/join'' table_request) = Inr (Some join_answer)
      \<and> status_code join_answer = 200
      \<and> (\<exists>fs. body join_answer = Json (JObj fs)
            \<and> map_of fs ''status'' = Some (JInt 200)))
   \<and> union_try backend_ok (post ''/union'' table_request) = Inr (Some union_answer)
   \<and> (union backend_ok (post ''/union'' table_request) = Inr (Some union_answer)
      \<and> status_code union_answer = 200
      \<and> (\<exists>fs. body union_answer = Json (JObj fs)
            \<and> map_of fs ''status'' = Some (JInt 200)))
   \<and> create_table_try backend_ok (post ''/create-table'' table_request)
       = Inr (Some create_table_answer)
   \<and> (create_table backend_ok (post ''/create-table'' table_request)
       = Inr (Some create_table_answer)
      \<and> status_code create_table_answer = 201
      \<and> (\<exists>fs. body create_table_answer = Json (JObj fs)
            \<and> map_of fs ''status'' = Some (JInt 201)))"
proof -
  have h_get_table: "get_table_try backend_ok (post ''/get-table'' table_request)
      = Inr (Some get_table_answer)"
    by code_simp
  note c_get_table = success_status_codes [THEN conjunct1, THEN mp, OF h_get_table]
  have h_join: "join_try backend_ok (post ''/join'' table_request) = Inr (Some join_answer)"
    by code_simp
  note c_join = success_status_codes [THEN conjunct2, THEN conjunct1, THEN mp, OF h_join]
  have h_union: "union_try backend_ok (post ''/union'' table_request) = Inr (Some union_answer)"
    by code_simp
  note c_union = success_status_codes [THEN conjunct2, THEN conjunct2, THEN conjunct1, THEN mp,
      OF h_union]
  have h_create_table: "create_table_try backend_ok (post ''/create-table'' table_request)
      = Inr (Some create_table_answer)"
    by code_simp
  note c_create_table = success_status_codes [THEN conjunct2, THEN conjunct2, THEN conjunct2,
      THEN mp, OF h_create_table]
  show ?thesis
    by (rule
      conjI [OF h_get_table conjI [OF c_get_table conjI [OF h_join conjI [OF c_join
      conjI [OF h_union conjI [OF c_union conjI [OF h_create_table
      c_create_table]]]]]]])
qed

section \<open>Parameters in the body\<close>















section \<open>Exceptions in the body of the try\<close>

lemma except_clause_500:
  assumes "json_dumps (PDict md) = Inr j"
  shows "\<exists>resp fs. except_clause (Exception c m) md = Inr (Some resp)
           \<and> status_code resp = 500 \<and> body resp = Json (JObj fs)
           \<and> map_of fs ''status'' = Some (JInt 500)
           \<and> map_of fs ''error_message'' = Some (JStr m)"
proof -
  from assms obtain fs where fs: "encodes JSONEncoder md fs"
    unfolding json_dumps_def dumps_PDict by blast
  let ?md = "setitem ''error_message'' (PStr m) (setitem ''status'' (PInt 500) md)"
  let ?fs = "setitem ''error_message'' (JStr m) (setitem ''status'' (JInt 500) fs)"
  have "encodes JSONEncoder ?md ?fs"
    by (intro encodes_setitem fs) simp_all
  then have "json_dumps (PDict ?md) = Inr (JObj ?fs)"
    unfolding json_dumps_def dumps_PDict by blast
  then have "except_clause (Exception c m) md =
      Inr (Some \<lparr>status_code = 500, mimetype = ''application/json'', headers = [],
                 body = Json (JObj ?fs)\<rparr>)"
    unfolding except_clause_Inr by blast
  then show ?thesis
    by (intro exI[of _ "\<lparr>status_code = 500, mimetype = ''application/json'', headers = [],
                 body = Json (JObj ?fs)\<rparr>"] exI[of _ ?fs]) (simp add: map_of_setitem)
qed

text \<open>
  C1, as the code has it: in each of the four views, when the body of the \<open>try\<close> raises
  an exception of a class derived from \<open>Exception\<close> (while the request is read, while
  it is unpacked or in the backend call) and \<open>json.dumps\<close> accepts the \<open>metadata\<close> of
  that moment, the view returns a response with HTTP status 500 whose body holds
  \<open>status = 500\<close> and \<open>error_message = str(e)\<close>, whatever the class and the message.
\<close>

theorem exception_gives_500:
  assumes "json_dumps (PDict md) = Inr j"
  shows "(get_table_try B request = Inl (Exception c m, md) \<longrightarrow>
           (\<exists>resp fs. get_table B request = Inr (Some resp)
              \<and> status_code resp = 500 \<and> body resp = Json (JObj fs)
              \<and> map_of fs ''status'' = Some (JInt 500)
              \<and> map_of fs ''error_message'' = Some (JStr m)))
       \<and> (join_try B request = Inl (Exception c m, md) \<longrightarrow>
           (\<exists>resp fs. join B request = Inr (Some resp)
              \<and> status_code resp = 500 \<and> body resp = Json (JObj fs)
              \<and> map_of fs ''status'' = Some (JInt 500)
              \<and> map_of fs ''error_message'' = Some (JStr m)))
       \<and> (union_try B request = Inl (Exception c m, md) \<longrightarrow>
           (\<exists>resp fs. union B request = Inr (Some resp)
              \<and> status_code resp = 500 \<and> body resp = Json (JObj fs)
              \<and> map_of fs ''status'' = Some (JInt 500)
              \<and> map_of fs ''error_message'' = Some (JStr m)))
       \<and> (create_table_try B request = Inl (Exception c m, md) \<longrightarrow>
           (\<exists>resp fs. create_table B request = Inr (Some resp)
              \<and> status_code resp = 500 \<and> body resp = Json (JObj fs)
              \<and> map_of fs ''status'' = Some (JInt 500)
              \<and> map_of fs ''error_message'' = Some (JStr m)))"
  using except_clause_500[OF assms, of c m]
  by (simp add: get_table_def join_def union_def create_table_def)

text \<open>
  C1 as stated fails twice. An \<open>unpack\<close> that returns a \<open>date\<close> among the
  parameters, followed by a backend call that raises \<open>ValueError\<close>: \<open>json.dumps\<close>
  rejects the date inside the \<open>except\<close> clause, and \<open>/get-table\<close> ends with that
  \<open>TypeError\<close> and no response. A backend call interrupted by \<open>KeyboardInterrupt\<close>:
  \<open>except Exception\<close> does not catch it, and \<open>/create-table\<close> ends with it.
\<close>

theorem exception_without_response:
  "unpack_table backend_dates table_request =
     Inr [(''tablename'', PStr ''mock''), (''since'', PDate (Date 2018 5 17))]
   \<and> quiver_get_table backend_dates
        [(''tablename'', PStr ''mock''), (''since'', PDate (Date 2018 5 17))] =
     Inl (Exception ''ValueError'' ''no such table'')
   \<and> get_table backend_dates (post ''/get-table'' table_request) =
     Inl (Exception ''TypeError'' ''Object of type date is not JSON serializable'')
   \<and> admix_create_table backend_interrupted
        [(''keyspace'', PStr ''examples''), (''tablename'', PStr ''mock''),
         (''columns'', PNone)] =
     Inl (BaseException ''KeyboardInterrupt'' [])
   \<and> create_table backend_interrupted (post ''/create-table'' table_request) =
     Inl (BaseException ''KeyboardInterrupt'' [])"
  by code_simp

theorem exception_gives_500_witness:
  "json_dumps (PDict sample_params) = Inr (JObj sample_fields)
   \<and> get_table_try backend_raises (post ''/get-table'' table_request) =
       Inl (Exception ''ValueError'' ''no such table'', sample_params)
   \<and> (\<exists>resp fs. get_table backend_raises (post ''/get-table'' table_request) = Inr (Some resp)
         \<and> status_code resp = 500 \<and> body resp = Json (JObj fs)
         \<and> map_of fs ''status'' = Some (JInt 500)
         \<and> map_of fs ''error_message'' = Some (JStr ''no such table''))
   \<and> json_dumps (PDict (setitem ''format'' (PStr ''dict'') sample_params))
       = Inr (JObj (sample_fields @ [(''format'', JStr ''dict'')]))
   \<and> join_try backend_raises (post ''/join'' table_request) =
       Inl (Exception ''ValueError'' ''no such table'',
           (setitem ''format'' (PStr ''dict'') sample_params))
   \<and> (\<exists>resp fs. join backend_raises (post ''/join'' table_request) = Inr (Some resp)
         \<and> status_code resp = 500 \<and> body resp = Json (JObj fs)
         \<and> map_of fs ''status'' = Some (JInt 500)
         \<and> map_of fs ''error_message'' = Some (JStr ''no such table''))
   \<and> json_dumps (PDict (setitem ''format'' (PStr ''dict'') sample_params))
       = Inr (JObj (sample_fields @ [(''format'', JStr ''dict'')]))
   \<and> union_try backend_raises (post ''/union'' table_request) =
       Inl (Exception ''ValueError'' ''no such table'',
           (setitem ''format'' (PStr ''dict'') sample_params))
   \<and> (\<exists>resp fs. union backend_raises (post ''/union'' table_request) = Inr (Some resp)
         \<and> status_code resp = 500 \<and> body resp = Json (JObj fs)
         \<and> map_of fs ''status'' = Some (JInt 500)
         \<and> map_of fs ''error_message'' = Some (JStr ''no such table''))
   \<and> json_dumps (PDict (sample_params @ [(''columns'', PNone)]))
       = Inr (JObj (sample_fields @ [(''columns'', JNull)]))
   \<and> create_table_try backend_raises (post ''/create-table'' table_request) =
       Inl (Exception ''ValueError'' ''no such table'', (sample_params @ [(''columns'', PNone)]))
   \<and> (\<exists>resp fs. create_table backend_raises (post ''/create-table'' table_request) = Inr (Some resp)
         \<and> status_code resp = 500 \<and> body resp = Json (JObj fs)
         \<and> map_of fs ''status'' = Some (JInt 500)
         \<and> map_of fs ''error_message'' = Some (JStr ''no such table''))
   \<and> json_dumps (PDict []) = Inr (JObj [])
   \<and> get_table_try backend_ok (post ''/get-table'' PNone) =
       Inl (Exception ''AttributeError'' no_get_message, [])
   \<and> (\<exists>resp fs. get_table backend_ok (post ''/get-table'' PNone) = Inr (Some resp)
         \<and> status_code resp = 500 \<and> body resp = Json (JObj fs)
         \<and> map_of fs ''status'' = Some (JInt 500)
         \<and> map_of fs ''error_message'' = Some (JStr no_get_message))"
proof -
  have a_get_table: "json_dumps (PDict sample_params) = Inr (JObj sample_fields)"
    by code_simp
  have h_get_table: "get_table_try backend_raises (post ''/get-table'' table_request) =
       Inl (Exception ''ValueError'' ''no such table'', sample_params)"
    by code_simp
  note c_get_table = exception_gives_500 [OF a_get_table, THEN conjunct1, THEN mp, OF h_get_table]
  have a_join: "json_dumps (PDict (setitem ''format'' (PStr ''dict'') sample_params))
      = Inr (JObj (sample_fields @ [(''format'', JStr ''dict'')]))"
    by code_simp
  have h_join: "join_try backend_raises (post ''/join'' table_request) =
       Inl (Exception ''ValueError'' ''no such table'',
           (setitem ''format'' (PStr ''dict'') sample_params))"
    by code_simp
  note c_join = exception_gives_500 [OF a_join, THEN conjunct2, THEN conjunct1, THEN mp, OF h_join]
  have a_union: "json_dumps (PDict (setitem ''format'' (PStr ''dict'') sample_params))
      = Inr (JObj (sample_fields @ [(''format'', JStr ''dict'')]))"
    by code_simp
  have h_union: "union_try backend_raises (post ''/union'' table_request) =
       Inl (Exception ''ValueError'' ''no such table'',
           (setitem ''format'' (PStr ''dict'') sample_params))"
    by code_simp
  note c_union = exception_gives_500 [OF a_union, THEN conjunct2, THEN conjunct2, THEN conjunct1,
      THEN mp, OF h_union]
  have a_create_table: "json_dumps (PDict (sample_params @ [(''columns'', PNone)]))
      = Inr (JObj (sample_fields @ [(''columns'', JNull)]))"
    by code_simp
  have h_create_table: "create_table_try backend_raises (post ''/create-table'' table_request) =
       Inl (Exception ''ValueError'' ''no such table'', (sample_params @ [(''columns'', PNone)]))"
    by code_simp
  note c_create_table = exception_gives_500 [OF a_create_table, THEN conjunct2, THEN conjunct2,
      THEN conjunct2, THEN mp, OF h_create_table]
  have a_n: "json_dumps (PDict []) = Inr (JObj [])"
    by code_simp
  have h_n: "get_table_try backend_ok (post ''/get-table'' PNone) =
       Inl (Exception ''AttributeError'' no_get_message, [])"
    by code_simp
  note c_n = exception_gives_500 [OF a_n, THEN conjunct1, THEN mp, OF h_n]
  show ?thesis
    by (rule
      conjI [OF a_get_table conjI [OF h_get_table conjI [OF c_get_table conjI [OF
      a_join conjI [OF h_join conjI [OF c_join conjI [OF a_union conjI [OF h_union
      conjI [OF c_union conjI [OF a_create_table conjI [OF h_create_table conjI [OF
      c_create_table conjI [OF a_n conjI [OF h_n c_n]]]]]]]]]]]]]])
qed

section \<open>The encoder of the failure path\<close>

lemma dumps_std_then_customized:
  "dumps JSONEncoder v = Inr j \<Longrightarrow> dumps app_json_encoder v = Inr j"
  unfolding dumps_def app_json_encoder_def by (rule std_then_customized)

lemma except_clause_encoders:
  assumes "except_clause e md = Inr (Some resp)"
  shows "\<exists>jb. body resp = Json jb
           \<and> dumps JSONEncoder (PDict (setitem ''error_message'' (PStr (str_e e))
                  (setitem ''status'' (PInt DEF_ERROR_CODE) md))) = Inr jb
           \<and> dumps app_json_encoder (PDict (setitem ''error_message'' (PStr (str_e e))
                  (setitem ''status'' (PInt DEF_ERROR_CODE) md))) = Inr jb"
proof -
  from assms obtain c m jb where r: "e = Exception c m"
    "dumps JSONEncoder (PDict (setitem ''error_message'' (PStr m)
        (setitem ''status'' (PInt 500) md))) = Inr jb"
    "resp = \<lparr>status_code = 500, mimetype = ''application/json'', headers = [],
             body = Json jb\<rparr>"
    unfolding except_clause_Inr json_dumps_def by blast
  from r(3) have "body resp = Json jb" by simp
  moreover from r(1,2) have "dumps JSONEncoder (PDict (setitem ''error_message''
        (PStr (str_e e)) (setitem ''status'' (PInt DEF_ERROR_CODE) md))) = Inr jb"
    by (simp add: DEF_ERROR_CODE_def)
  ultimately show ?thesis
    using dumps_std_then_customized by blast
qed

text \<open>
  C4, as the code has it: in each of the four views the failure envelope is serialised by
  \<open>json.dumps\<close>, that is by the standard \<open>JSONEncoder\<close>, and not by the encoder of the
  application. Whatever the standard encoder accepts, the customized encoder encodes to
  the same JSON, so the body of a failure response that is returned is also what the
  encoder of the application gives for the envelope. The standard encoder rejects every
  numpy integer, \<open>datetime\<close>, \<open>date\<close> and \<open>timedelta\<close> with \<open>TypeError\<close>.
\<close>

theorem failure_path_encoder:
  "(dumps JSONEncoder v = Inr j \<longrightarrow> dumps app_json_encoder v = Inr j)
   \<and> (get_table_try B request = Inl (e, md) \<and> get_table B request = Inr (Some resp) \<longrightarrow>
      (\<exists>jb. body resp = Json jb
         \<and> dumps JSONEncoder (PDict (setitem ''error_message'' (PStr (str_e e))
                (setitem ''status'' (PInt DEF_ERROR_CODE) md))) = Inr jb
         \<and> dumps app_json_encoder (PDict (setitem ''error_message'' (PStr (str_e e))
                (setitem ''status'' (PInt DEF_ERROR_CODE) md))) = Inr jb))
   \<and> (join_try B request = Inl (e, md) \<and> join B request = Inr (Some resp) \<longrightarrow>
      (\<exists>jb. body resp = Json jb
         \<and> dumps JSONEncoder (PDict (setitem ''error_message'' (PStr (str_e e))
                (setitem ''status'' (PInt DEF_ERROR_CODE) md))) = Inr jb
         \<and> dumps app_json_encoder (PDict (setitem ''error_message'' (PStr (str_e e))
                (setitem ''status'' (PInt DEF_ERROR_CODE) md))) = Inr jb))
   \<and> (union_try B request = Inl (e, md) \<and> union B request = Inr (Some resp) \<longrightarrow>
      (\<exists>jb. body resp = Json jb
         \<and> dumps JSONEncoder (PDict (setitem ''error_message'' (PStr (str_e e))
                (setitem ''status'' (PInt DEF_ERROR_CODE) md))) = Inr jb
         \<and> dumps app_json_encoder (PDict (setitem ''error_message'' (PStr (str_e e))
                (setitem ''status'' (PInt DEF_ERROR_CODE) md))) = Inr jb))
   \<and> (create_table_try B request = Inl (e, md) \<and> create_table B request = Inr (Some resp) \<longrightarrow>
      (\<exists>jb. body resp = Json jb
         \<and> dumps JSONEncoder (PDict (setitem ''error_message'' (PStr (str_e e))
                (setitem ''status'' (PInt DEF_ERROR_CODE) md))) = Inr jb
         \<and> dumps app_json_encoder (PDict (setitem ''error_message'' (PStr (str_e e))
                (setitem ''status'' (PInt DEF_ERROR_CODE) md))) = Inr jb))
   \<and> dumps JSONEncoder (NpInt k i) =
       Inl (Exception ''TypeError''
             (''Object of type '' @ np_int_name k @ '' is not JSON serializable''))
   \<and> dumps JSONEncoder (PDatetime dt) =
       Inl (Exception ''TypeError'' ''Object of type datetime is not JSON serializable'')
   \<and> dumps JSONEncoder (PDate d) =
       Inl (Exception ''TypeError'' ''Object of type date is not JSON serializable'')
   \<and> dumps JSONEncoder (PTimedelta td) =
       Inl (Exception ''TypeError'' ''Object of type timedelta is not JSON serializable'')"
proof (intro conjI impI)
  assume "dumps JSONEncoder v = Inr j"
  then show "dumps app_json_encoder v = Inr j"
    by (rule dumps_std_then_customized)
next
  assume "get_table_try B request = Inl (e, md) \<and> get_table B request = Inr (Some resp)"
  then have "except_clause e md = Inr (Some resp)"
    by (auto simp: get_table_def)
  then show "\<exists>jb. body resp = Json jb
         \<and> dumps JSONEncoder (PDict (setitem ''error_message'' (PStr (str_e e))
                (setitem ''status'' (PInt DEF_ERROR_CODE) md))) = Inr jb
         \<and> dumps app_json_encoder (PDict (setitem ''error_message'' (PStr (str_e e))
                (setitem ''status'' (PInt DEF_ERROR_CODE) md))) = Inr jb"
    by (rule except_clause_encoders)
next
  assume "join_try B request = Inl (e, md) \<and> join B request = Inr (Some resp)"
  then have "except_clause e md = Inr (Some resp)"
    by (auto simp: join_def)
  then show "\<exists>jb. body resp = Json jb
         \<and> dumps JSONEncoder (PDict (setitem ''error_message'' (PStr (str_e e))
                (setitem ''status'' (PInt DEF_ERROR_CODE) md))) = Inr jb
         \<and> dumps app_json_encoder (PDict (setitem ''error_message'' (PStr (str_e e))
                (setitem ''status'' (PInt DEF_ERROR_CODE) md))) = Inr jb"
    by (rule except_clause_encoders)
next
  assume "union_try B request = Inl (e, md) \<and> union B request = Inr (Some resp)"
  then have "except_clause e md = Inr (Some resp)"
    by (auto simp: union_def)
  then show "\<exists>jb. body resp = Json jb
         \<and> dumps JSONEncoder (PDict (setitem ''error_message'' (PStr (str_e e))
                (setitem ''status'' (PInt DEF_ERROR_CODE) md))) = Inr jb
         \<and> dumps app_json_encoder (PDict (setitem ''error_message'' (PStr (str_e e))
                (setitem ''status'' (PInt DEF_ERROR_CODE) md))) = Inr jb"
    by (rule except_clause_encoders)
next
  assume "create_table_try B request = Inl (e, md) \<and> create_table B request = Inr (Some resp)"
  then have "except_clause e md = Inr (Some resp)"
    by (auto simp: create_table_def)
  then show "\<exists>jb. body resp = Json jb
         \<and> dumps JSONEncoder (PDict (setitem ''error_message'' (PStr (str_e e))
                (setitem ''status'' (PInt DEF_ERROR_CODE) md))) = Inr jb
         \<and> dumps app_json_encoder (PDict (setitem ''error_message'' (PStr (str_e e))
                (setitem ''status'' (PInt DEF_ERROR_CODE) md))) = Inr jb"
    by (rule except_clause_encoders)
qed (simp_all add: dumps_def JSONEncoder_default_def)

text \<open>
  C4 as stated fails: with a \<open>date\<close> among the unpacked parameters and a backend call
  that raises, \<open>/join\<close> ends with the \<open>TypeError\<close> of \<open>json.dumps\<close> on the failure
  envelope, while the encoder of the application serialises that same envelope.
\<close>

theorem failure_path_other_encoder:
  "unpack_join backend_dates table_request =
     Inr [(''tablename'', PStr ''mock''), (''since'', PDate (Date 2018 5 17))]
   \<and> quiver_join backend_dates
        [(''tablename'', PStr ''mock''), (''since'', PDate (Date 2018 5 17)),
         (''format'', PStr ''dict'')] =
     Inl (Exception ''ValueError'' ''no such table'')
   \<and> join backend_dates (post ''/join'' table_request) =
     Inl (Exception ''TypeError'' ''Object of type date is not JSON serializable'')
   \<and> json_dumps (PDict [(''tablename'', PStr ''mock''), (''since'', PDate (Date 2018 5 17)),
         (''format'', PStr ''dict''), (''status'', PInt 500),
         (''error_message'', PStr ''no such table'')]) =
     Inl (Exception ''TypeError'' ''Object of type date is not JSON serializable'')
   \<and> dumps app_json_encoder (PDict [(''tablename'', PStr ''mock''),
         (''since'', PDate (Date 2018 5 17)),
         (''format'', PStr ''dict''), (''status'', PInt 500),
         (''error_message'', PStr ''no such table'')]) =
     Inr (JObj [(''tablename'', JStr ''mock''), (''since'', JStr ''2018-05-17''),
         (''format'', JStr ''dict''), (''status'', JInt 500),
         (''error_message'', JStr ''no such table'')])"
  by code_simp

theorem failure_path_encoder_witness:
  "dumps JSONEncoder (PList [PInt 1, PStr ''a'']) = Inr (JArr [JInt 1, JStr ''a''])
   \<and> dumps app_json_encoder (PList [PInt 1, PStr ''a'']) = Inr (JArr [JInt 1, JStr ''a''])
   \<and> get_table_try backend_raises (post ''/get-table'' table_request)
       = Inl (no_such_table, sample_params)
   \<and> get_table backend_raises (post ''/get-table'' table_request) = Inr (Some get_table_failure)
   \<and> (\<exists>jb. body get_table_failure = Json jb
         \<and> dumps JSONEncoder (PDict (setitem ''error_message'' (PStr (str_e no_such_table))
                (setitem ''status'' (PInt DEF_ERROR_CODE) sample_params))) = Inr jb
         \<and> dumps app_json_encoder (PDict (setitem ''error_message'' (PStr (str_e no_such_table))
                (setitem ''status'' (PInt DEF_ERROR_CODE) sample_params))) = Inr jb)
   \<and> join_try backend_raises (post ''/join'' table_request) = Inl (no_such_table,
       (setitem ''format'' (PStr ''dict'') sample_params))
   \<and> join backend_raises (post ''/join'' table_request) = Inr (Some join_failure)
   \<and> (\<exists>jb. body join_failure = Json jb
         \<and> dumps JSONEncoder (PDict (setitem ''error_message'' (PStr (str_e no_such_table))
                (setitem ''status'' (PInt DEF_ERROR_CODE)
                    (setitem ''format'' (PStr ''dict'') sample_params)))) = Inr jb
         \<and> dumps app_json_encoder (PDict (setitem ''error_message'' (PStr (str_e no_such_table))
                (setitem ''status'' (PInt DEF_ERROR_CODE)
                    (setitem ''format'' (PStr ''dict'') sample_params)))) = Inr jb)
   \<and> union_try backend_raises (post ''/union'' table_request) = Inl (no_such_table,
       (setitem ''format'' (PStr ''dict'') sample_params))
   \<and> union backend_raises (post ''/union'' table_request) = Inr (Some join_failure)
   \<and> (\<exists>jb. body join_failure = Json jb
         \<and> dumps JSONEncoder (PDict (setitem ''error_message'' (PStr (str_e no_such_table))
                (setitem ''status'' (PInt DEF_ERROR_CODE)
                    (setitem ''format'' (PStr ''dict'') sample_params)))) = Inr jb
         \<and> dumps app_json_encoder (PDict (setitem ''error_message'' (PStr (str_e no_such_table))
                (setitem ''status'' (PInt DEF_ERROR_CODE)
                    (setitem ''format'' (PStr ''dict'') sample_params)))) = Inr jb)
   \<and> create_table_try backend_raises (post ''/create-table'' table_request)
       = Inl (no_such_table, (sample_params @ [(''columns'', PNone)]))
   \<and> create_table backend_raises (post ''/create-table'' table_request)
       = Inr (Some create_table_failure)
   \<and> (\<exists>jb. body create_table_failure = Json jb
         \<and> dumps JSONEncoder (PDict (setitem ''error_message'' (PStr (str_e no_such_table))
                (setitem ''status'' (PInt DEF_ERROR_CODE) (sample_params @ [(''columns'', PNone)])))) = Inr jb
         \<and> dumps app_json_encoder (PDict (setitem ''error_message'' (PStr (str_e no_such_table))
                (setitem ''status'' (PInt DEF_ERROR_CODE) (sample_params @ [(''columns'', PNone)])))) = Inr jb)"
proof -
  have a0: "dumps JSONEncoder (PList [PInt 1, PStr ''a'']) = Inr (JArr [JInt 1, JStr ''a''])"
    by code_simp
  note c0 = failure_path_encoder [THEN conjunct1, THEN mp, OF a0]
  have h1_get_table: "get_table_try backend_raises (post ''/get-table'' table_request)
      = Inl (no_such_table, sample_params)"
    by code_simp
  have h2_get_table: "get_table backend_raises (post ''/get-table'' table_request)
      = Inr (Some get_table_failure)"
    by code_simp
  note c_get_table = failure_path_encoder [THEN conjunct2, THEN conjunct1, THEN mp, OF
      conjI [OF h1_get_table h2_get_table]]
  have h1_join: "join_try backend_raises (post ''/join'' table_request) = Inl (no_such_table,
      (setitem ''format'' (PStr ''dict'') sample_params))"
    by code_simp
  have h2_join: "join backend_raises (post ''/join'' table_request) = Inr (Some join_failure)"
    by code_simp
  note c_join = failure_path_encoder [THEN conjunct2, THEN conjunct2, THEN conjunct1, THEN mp, OF
      conjI [OF h1_join h2_join]]
  have h1_union: "union_try backend_raises (post ''/union'' table_request) = Inl (no_such_table,
      (setitem ''format'' (PStr ''dict'') sample_params))"
    by code_simp
  have h2_union: "union backend_raises (post ''/union'' table_request) = Inr (Some join_failure)"
    by code_simp
  note c_union = failure_path_encoder [THEN conjunct2, THEN conjunct2, THEN conjunct2,
      THEN conjunct1, THEN mp, OF conjI [OF h1_union h2_union]]
  have h1_create_table: "create_table_try backend_raises (post ''/create-table'' table_request)
      = Inl (no_such_table, (sample_params @ [(''columns'', PNone)]))"
    by code_simp
  have h2_create_table: "create_table backend_raises (post ''/create-table'' table_request)
      = Inr (Some create_table_failure)"
    by code_simp
  note c_create_table = failure_path_encoder [THEN conjunct2, THEN conjunct2, THEN conjunct2,
      THEN conjunct2, THEN conjunct1, THEN mp, OF conjI [OF h1_create_table h2_create_table]]
  show ?thesis
    by (rule
      conjI [OF a0 conjI [OF c0 conjI [OF h1_get_table conjI [OF h2_get_table conjI [OF
      c_get_table conjI [OF h1_join conjI [OF h2_join conjI [OF c_join conjI [OF
      h1_union conjI [OF h2_union conjI [OF c_union conjI [OF h1_create_table conjI [OF
      h2_create_table c_create_table]]]]]]]]]]]]])
qed

section \<open>The Location header\<close>

lemma add_response_headers_Location:
  assumes "add_response_headers [(''Location'', v)] f request = Inr resp"
  shows "map_of (headers resp) ''Location'' = Some v"
  using assms
  by (auto simp: add_response_headers_def make_response_def map_of_setitem
      split: sum.splits option.splits)

lemma url_map_cases:
  assumes "map_of url_map p = Some (methods, endpoint)"
  shows "p = ''/'' \<and> endpoint = ''root'' \<or> p = ''/version'' \<and> endpoint = ''version''
       \<or> p = ''/about'' \<and> endpoint = ''about''
       \<or> p = ''/get-table'' \<and> endpoint = ''get_table''
       \<or> p = ''/join'' \<and> endpoint = ''join'' \<or> p = ''/union'' \<and> endpoint = ''union''
       \<or> p = ''/create-table'' \<and> endpoint = ''create_table''"
  using assms by (simp add: url_map_def split: if_splits)

text \<open>
  C5, as the code has it: a response that comes from a view carries the \<open>Location\<close>
  that the decorator of the view names. That is the path of the request for
  \<open>/version\<close>, \<open>/about\<close>, \<open>/get-table\<close>, \<open>/join\<close>, \<open>/union\<close> and
  \<open>/create-table\<close>, on success and on failure alike, and \<open>/about\<close> for \<open>/\<close>. The
  answer to a path with no rule carries no \<open>Location\<close>.
\<close>

theorem location_header:
  "(dispatch B request = Inr resp
      \<and> map_of url_map (path request) = Some (methods, endpoint)
      \<and> request_method request \<noteq> ''OPTIONS''
      \<and> allowed (request_method request) methods \<longrightarrow>
        map_of (headers resp) ''Location'' =
          Some (if path request = ''/'' then ''/about'' else path request))
   \<and> (dispatch B request = Inr resp \<and> map_of url_map (path request) = None \<longrightarrow>
        map_of (headers resp) ''Location'' = None)"
proof (intro conjI impI)
  assume "dispatch B request = Inr resp
      \<and> map_of url_map (path request) = Some (methods, endpoint)
      \<and> request_method request \<noteq> ''OPTIONS''
      \<and> allowed (request_method request) methods"
  then have h: "dispatch B request = Inr resp"
      "map_of url_map (path request) = Some (methods, endpoint)"
      "request_method request \<noteq> ''OPTIONS''" "allowed (request_method request) methods"
    by simp_all
  from h have v: "(case map_of (view_functions B) endpoint of
               None \<Rightarrow> Inl (Exception ''KeyError'' endpoint)
             | Some view \<Rightarrow> view request) = Inr resp"
    by (simp add: dispatch_def)
  from url_map_cases[OF h(2)]
  show "map_of (headers resp) ''Location'' =
          Some (if path request = ''/'' then ''/about'' else path request)"
  proof (elim disjE conjE, goal_cases)
    case 1
    with v have "add_response_headers [(''Location'', ''/about'')] root request = Inr resp"
      by (simp add: view_functions_def)
    from add_response_headers_Location[OF this] 1 show ?thesis by simp
  next
    case 2
    with v have "add_response_headers [(''Location'', ''/version'')] version request = Inr resp"
      by (simp add: view_functions_def)
    from add_response_headers_Location[OF this] 2 show ?thesis by simp
  next
    case 3
    with v have "add_response_headers [(''Location'', ''/about'')] about request = Inr resp"
      by (simp add: view_functions_def)
    from add_response_headers_Location[OF this] 3 show ?thesis by simp
  next
    case 4
    with v have "add_response_headers [(''Location'', ''/get-table'')] (get_table B) request
        = Inr resp"
      by (simp add: view_functions_def)
    from add_response_headers_Location[OF this] 4 show ?thesis by simp
  next
    case 5
    with v have "add_response_headers [(''Location'', ''/join'')] (join B) request = Inr resp"
      by (simp add: view_functions_def)
    from add_response_headers_Location[OF this] 5 show ?thesis by simp
  next
    case 6
    with v have "add_response_headers [(''Location'', ''/union'')] (union B) request = Inr resp"
      by (simp add: view_functions_def)
    from add_response_headers_Location[OF this] 6 show ?thesis by simp
  next
    case 7
    with v have "add_response_headers [(''Location'', ''/create-table'')] (create_table B)
        request = Inr resp"
      by (simp add: view_functions_def)
    from add_response_headers_Location[OF this] 7 show ?thesis by simp
  qed
next
  assume "dispatch B request = Inr resp \<and> map_of url_map (path request) = None"
  then show "map_of (headers resp) ''Location'' = None"
    by (auto simp: dispatch_def page_not_found_def jsonify_def split: sum.splits)
qed

text \<open>
  C5 as stated fails: the response to \<open>GET /\<close> has \<open>Location: /about\<close>, which is not
  the path of the request, and the response to the unknown path \<open>/tables\<close> has no
  header at all.
\<close>

theorem location_is_not_the_path:
  "path (get ''/'') = ''/''
   \<and> dispatch backend_ok (get ''/'') =
     Inr \<lparr>status_code = 302, mimetype = ''text/html'',
          headers = [(''Location'', ''/about'')], body = RedirectPage ''/about''\<rparr>
   \<and> dispatch backend_ok (get ''/tables'') =
     Inr \<lparr>status_code = 200, mimetype = ''application/json'', headers = [],
          body = Json (JObj [(''status'', JInt 404),
              (''error_message'', JStr ''Apollo API endpoint not found.''),
              (''api_name'', JStr ''Apollo''),
              (''version'', JFloat (Finite 1 0)),
              (''author'', JStr ''juanantonioaguilar@gmail.com''),
              (''license'', JStr ''Apache 2.0'')])\<rparr>"
  by code_simp

theorem location_header_witness:
  "dispatch backend_raises (post ''/join'' table_request) =
     Inr (join_failure\<lparr>headers := [(''Location'', ''/join'')]\<rparr>)
   \<and> map_of url_map (path (post ''/join'' table_request)) = Some ([''POST''], ''join'')
   \<and> request_method (post ''/join'' table_request) \<noteq> ''OPTIONS''
   \<and> allowed (request_method (post ''/join'' table_request)) [''POST'']
   \<and> map_of (headers (join_failure\<lparr>headers := [(''Location'', ''/join'')]\<rparr>)) ''Location'' =
       Some (if path (post ''/join'' table_request) = ''/'' then ''/about''
             else path (post ''/join'' table_request))
   \<and> dispatch backend_ok (get ''/tables'') = Inr not_found_answer
   \<and> map_of url_map (path (get ''/tables'')) = None
   \<and> map_of (headers not_found_answer) ''Location'' = None"
proof -
  have a1: "dispatch backend_raises (post ''/join'' table_request) =
     Inr (join_failure\<lparr>headers := [(''Location'', ''/join'')]\<rparr>)"
    by code_simp
  have a2: "map_of url_map (path (post ''/join'' table_request)) = Some ([''POST''], ''join'')"
    by code_simp
  have a3: "request_method (post ''/join'' table_request) \<noteq> ''OPTIONS''"
    by code_simp
  have a4: "allowed (request_method (post ''/join'' table_request)) [''POST'']"
    by code_simp
  note c1 = location_header [THEN conjunct1, THEN mp,
      OF conjI [OF a1 conjI [OF a2 conjI [OF a3 a4]]]]
  have b1: "dispatch backend_ok (get ''/tables'') = Inr not_found_answer"
    by code_simp
  have b2: "map_of url_map (path (get ''/tables'')) = None"
    by code_simp
  note c2 = location_header [THEN conjunct2, THEN mp, OF conjI [OF b1 b2]]
  show ?thesis
    by (rule conjI [OF a1 conjI [OF a2 conjI [OF a3 conjI [OF a4 conjI [OF c1
      conjI [OF b1 conjI [OF b2 c2]]]]]]])
qed

section \<open>The invariant of the envelope\<close>













section \<open>ISO-8601 strings of temporal values\<close>


























section \<open>The values that the customized encoder accepts\<close>



text \<open>
  In the model of numpy taken here, a \<open>np.float16\<close> or \<open>np.float32\<close> reaches
  \<open>obj.asscalar()\<close>, which the scalar classes do not have.
\<close>

lemma asscalar_raises:
  "k \<noteq> float64 \<Longrightarrow> dumps app_json_encoder (NpFloat k f) =
     Inl (Exception ''AttributeError''
            ([CHR 0x27] @ ''numpy.'' @ np_float_name k @ [CHR 0x27]
             @ '' object has no attribute '' @ [CHR 0x27] @ ''asscalar'' @ [CHR 0x27]))"
  by (simp add: dumps_def app_json_encoder_def np_asscalar_def)




end
